theory Spec2Isabelle
  imports Main "HOL-Library.Sublist" "HOL-Library.Char_ord" "HOL-Library.List_Lexorder"
begin

section \<open>Strings and the JavaScript runtime\<close>

text \<open>
  A JavaScript string is modelled as a \<^typ>\<open>string\<close>: the text in its UTF-8 encoding, so that
  equal strings are equal lists and concatenation is \<open>@\<close>. The string methods of the runtime
  that the code calls work on characters and know the case tables of Unicode; they are not
  part of the repository and are parameters of the model:
  \<^verbatim>\<open>s.toLowerCase()\<close>, \<^verbatim>\<open>s.toUpperCase()\<close>, \<^verbatim>\<open>s.charAt(i)\<close> and \<^verbatim>\<open>s.slice(i)\<close>.
  Every property below holds for whatever functions the runtime provides.
\<close>

record js_runtime =
  toLowerCase :: "string \<Rightarrow> string"
  toUpperCase :: "string \<Rightarrow> string"
  charAt :: "string \<Rightarrow> nat \<Rightarrow> string"
  slice :: "string \<Rightarrow> nat \<Rightarrow> string"

section \<open>src/quran/client.ts\<close>

subsection \<open>Configuration and environments\<close>

text \<open>
  \<^verbatim>\<open>export enum QuranEnvironment { PRODUCTION = "production", PRE_PRODUCTION = "pre-production" }\<close>
  The enum is a datatype; \<open>env_value\<close> is the string each member stands for at run time.
\<close>

datatype QuranEnvironment = PRODUCTION | PRE_PRODUCTION

fun env_value :: "QuranEnvironment \<Rightarrow> string" where
  "env_value PRODUCTION = ''production''"
| "env_value PRE_PRODUCTION = ''pre-production''"

text \<open>The SDK's \<open>Language\<close> enum is a set of language codes; only \<open>Language.ENGLISH\<close> is used.\<close>

type_synonym Language = string

definition Language_ENGLISH :: Language where
  "Language_ENGLISH = ''en''"

text \<open>\<^verbatim>\<open>interface QuranConfig\<close>: the two optional fields are options (\<open>None\<close> is \<open>undefined\<close>).\<close>

record QuranConfig =
  clientId :: string
  clientSecret :: string
  defaultLanguage :: "Language option"
  environment :: "QuranEnvironment option"

record endpoints =
  contentBaseUrl :: string
  authBaseUrl :: string

text \<open>\<^verbatim>\<open>const ENVIRONMENT_CONFIG = { ... } as const\<close>, a table over the members of the enum.\<close>

fun ENVIRONMENT_CONFIG :: "QuranEnvironment \<Rightarrow> endpoints" where
  "ENVIRONMENT_CONFIG PRODUCTION =
     \<lparr>contentBaseUrl = ''https://apis.quran.foundation'',
      authBaseUrl = ''https://oauth2.quran.foundation''\<rparr>"
| "ENVIRONMENT_CONFIG PRE_PRODUCTION =
     \<lparr>contentBaseUrl = ''https://apis-prelive.quran.foundation'',
      authBaseUrl = ''https://prelive-oauth2.quran.foundation''\<rparr>"

text \<open>
  \<^verbatim>\<open>config.environment || QuranEnvironment.PRODUCTION\<close>: every member of the enum is a
  non-empty string, hence truthy, so only \<open>undefined\<close> takes the default.
\<close>

definition environment_or_default :: "QuranConfig \<Rightarrow> QuranEnvironment" where
  "environment_or_default config =
     (case environment config of None \<Rightarrow> PRODUCTION | Some e \<Rightarrow> e)"

text \<open>\<^verbatim>\<open>config.defaultLanguage || Language.ENGLISH\<close>: \<open>undefined\<close> and the empty string are falsy.\<close>

definition language_or_default :: "QuranConfig \<Rightarrow> Language" where
  "language_or_default config =
     (case defaultLanguage config of
        None \<Rightarrow> Language_ENGLISH
      | Some l \<Rightarrow> if l = [] then Language_ENGLISH else l)"

subsection \<open>Client handles\<close>

text \<open>
  A \<open>QuranClient\<close> is an object of the SDK. The model keeps the options it was constructed with
  and the access token it holds, which is absent until the first content request (the SDK
  authenticates lazily). Objects live in a heap; a handle is the address of an object, so two
  handles denote the identical instance exactly when they are equal.
\<close>

type_synonym handle = nat

record QuranClient =
  sdk_clientId :: string
  sdk_clientSecret :: string
  sdk_contentBaseUrl :: string
  sdk_authBaseUrl :: string
  sdk_language :: Language
  sdk_token :: "string option"

text \<open>The calls into the SDK that the module makes, in the order it makes them.\<close>

datatype sdk_call = Constructed handle | ClearCachedToken handle

text \<open>
  The module state: the heap of client objects, the two module-level cells
  \<^verbatim>\<open>let cachedClient: QuranClient | null = null; let cachedConfig: string | null = null;\<close>
  (\<open>None\<close> is \<open>null\<close>) and the log of SDK calls.
\<close>

record module_state =
  heap :: "QuranClient list"
  cachedClient :: "handle option"
  cachedConfig :: "string option"
  sdk_log :: "sdk_call list"

definition initial_state :: module_state where
  "initial_state = \<lparr>heap = [], cachedClient = None, cachedConfig = None, sdk_log = []\<rparr>"

text \<open>\<^verbatim>\<open>new QuranClient({...})\<close> allocates a fresh object, with no token, at the next address.\<close>

definition new_QuranClient :: "QuranClient \<Rightarrow> module_state \<Rightarrow> handle \<times> module_state" where
  "new_QuranClient obj s =
     (let h = length (heap s)
      in (h, s\<lparr>heap := heap s @ [obj\<lparr>sdk_token := None\<rparr>],
                sdk_log := sdk_log s @ [Constructed h]\<rparr>))"

text \<open>\<^verbatim>\<open>client.clearCachedToken()\<close>: the object at the handle drops the token it holds.\<close>

definition clearCachedToken :: "handle \<Rightarrow> module_state \<Rightarrow> module_state" where
  "clearCachedToken h s =
     s\<lparr>heap := (if h < length (heap s)
                 then (heap s)[h := (heap s ! h)\<lparr>sdk_token := None\<rparr>]
                 else heap s),
       sdk_log := sdk_log s @ [ClearCachedToken h]\<rparr>"

subsection \<open>createQuranClient, getConfigKey, getQuranClient, clearClientCache\<close>

definition client_options :: "QuranConfig \<Rightarrow> QuranClient" where
  "client_options config =
     (let environment = environment_or_default config;
          envConfig = ENVIRONMENT_CONFIG environment
      in \<lparr>sdk_clientId = clientId config,
          sdk_clientSecret = clientSecret config,
          sdk_contentBaseUrl = contentBaseUrl envConfig,
          sdk_authBaseUrl = authBaseUrl envConfig,
          sdk_language = language_or_default config,
          sdk_token = None\<rparr>)"

definition createQuranClient :: "QuranConfig \<Rightarrow> module_state \<Rightarrow> handle \<times> module_state" where
  "createQuranClient config s = new_QuranClient (client_options config) s"

definition getConfigKey :: "QuranConfig \<Rightarrow> string" where
  "getConfigKey config = clientId config @ '':'' @ env_value (environment_or_default config)"

definition getQuranClient :: "QuranConfig \<Rightarrow> module_state \<Rightarrow> handle \<times> module_state" where
  "getQuranClient config s =
     (let configKey = getConfigKey config
      in case cachedClient s of
           Some c \<Rightarrow>
             if cachedConfig s = Some configKey then (c, s)
             else (let (c', s') = createQuranClient config s
                   in (c', s'\<lparr>cachedClient := Some c', cachedConfig := Some configKey\<rparr>))
         | None \<Rightarrow>
             (let (c', s') = createQuranClient config s
              in (c', s'\<lparr>cachedClient := Some c', cachedConfig := Some configKey\<rparr>)))"

definition clearClientCache :: "module_state \<Rightarrow> module_state" where
  "clearClientCache s =
     (let s1 = (case cachedClient s of
                  Some c \<Rightarrow> (clearCachedToken c s)\<lparr>cachedClient := None\<rparr>
                | None \<Rightarrow> s)
      in s1\<lparr>cachedConfig := None\<rparr>)"

text \<open>
  Both functions are synchronous, so any interleaving of callers is a sequence of whole calls.
\<close>

datatype cache_call = Get QuranConfig | Clear

fun run_call :: "cache_call \<Rightarrow> module_state \<Rightarrow> module_state" where
  "run_call (Get config) s = snd (getQuranClient config s)"
| "run_call Clear s = clearClientCache s"

fun run_calls :: "cache_call list \<Rightarrow> module_state \<Rightarrow> module_state" where
  "run_calls [] s = s"
| "run_calls (c # cs) s = run_calls cs (run_call c s)"

text \<open>The cached handle, when there is one, is the address of an allocated object.\<close>

definition cached_allocated :: "module_state \<Rightarrow> bool" where
  "cached_allocated s = (case cachedClient s of None \<Rightarrow> True | Some c \<Rightarrow> c < length (heap s))"

text \<open>The two cells are both set or both empty.\<close>

definition cells_agree :: "module_state \<Rightarrow> bool" where
  "cells_agree s = ((cachedClient s = None) = (cachedConfig s = None))"

subsection \<open>src/index.ts: choosing the environment\<close>

text \<open>
  \<^verbatim>\<open>const quranEnvStr = (this.env as any).QURAN_ENV?.toLowerCase();
  const quranEnv = quranEnvStr === "pre-production" ? PRE_PRODUCTION : PRODUCTION;\<close>
\<close>

definition quranEnv :: "js_runtime \<Rightarrow> string option \<Rightarrow> QuranEnvironment" where
  "quranEnv rt QURAN_ENV =
     (let quranEnvStr = map_option (toLowerCase rt) QURAN_ENV
      in if quranEnvStr = Some ''pre-production'' then PRE_PRODUCTION else PRODUCTION)"

definition endpoints_of :: "QuranClient \<Rightarrow> endpoints" where
  "endpoints_of c = \<lparr>contentBaseUrl = sdk_contentBaseUrl c, authBaseUrl = sdk_authBaseUrl c\<rparr>"

section \<open>src/quran/tools.ts\<close>

subsection \<open>Values, numbers and the characters outside ASCII\<close>

text \<open>
  The fields the handlers read without knowing their type (the caught \<open>error: any\<close>, the
  fields of a verse put into a template literal) are JavaScript values.
\<close>

datatype jsval = JUndefined | JNull | JBool bool | JNum int | JStr string

fun truthy :: "jsval \<Rightarrow> bool" where
  "truthy JUndefined = False"
| "truthy JNull = False"
| "truthy (JBool b) = b"
| "truthy (JNum n) = (n \<noteq> 0)"
| "truthy (JStr s) = (s \<noteq> [])"

text \<open>\<^verbatim>\<open>a || b\<close>\<close>

definition js_or :: "jsval \<Rightarrow> jsval \<Rightarrow> jsval" where
  "js_or a b = (if truthy a then a else b)"

text \<open>The decimal digits of a number, the most significant first.\<close>

definition digit_char :: "nat \<Rightarrow> char" where
  "digit_char d = ''0123456789'' ! d"

fun decimal_of_nat :: "nat \<Rightarrow> string" where
  "decimal_of_nat n =
     (let q = n div 10
      in (if q = 0 then [] else decimal_of_nat q) @ [digit_char (n mod 10)])"

declare decimal_of_nat.simps [simp del]

definition decimal_of_int :: "int \<Rightarrow> string" where
  "decimal_of_int i =
     (if 0 \<le> i then decimal_of_nat (nat i) else CHR ''-'' # decimal_of_nat (nat (- i)))"

text \<open>What a template literal \<^verbatim>\<open>${v}\<close> puts for a value; numbers are integers.\<close>

fun js_string :: "jsval \<Rightarrow> string" where
  "js_string JUndefined = ''undefined''"
| "js_string JNull = ''null''"
| "js_string (JBool b) = (if b then ''true'' else ''false'')"
| "js_string (JNum n) = decimal_of_int n"
| "js_string (JStr s) = s"

text \<open>An optional string field in a template literal: \<open>undefined\<close> is printed as such.\<close>

definition opt_string :: "string option \<Rightarrow> string" where
  "opt_string v = (case v of None \<Rightarrow> ''undefined'' | Some s \<Rightarrow> s)"

text \<open>The four characters outside ASCII that the response texts use, as UTF-8.\<close>

definition open_book :: string where
  "open_book = [CHR 0xF0, CHR 0x9F, CHR 0x93, CHR 0x96]"

definition books :: string where
  "books = [CHR 0xF0, CHR 0x9F, CHR 0x93, CHR 0x9A]"

definition cross_mark :: string where
  "cross_mark = [CHR 0xE2, CHR 0x9D, CHR 0x8C]"

definition bullet :: string where
  "bullet = [CHR 0xE2, CHR 0x80, CHR 0xA2]"

text \<open>\<^verbatim>\<open>s.charAt(0).toUpperCase() + s.slice(1)\<close>\<close>

definition capitalize :: "js_runtime \<Rightarrow> string \<Rightarrow> string" where
  "capitalize rt s = toUpperCase rt (charAt rt s 0) @ slice rt s 1"

subsection \<open>The SDK client as the handlers see it\<close>

text \<open>
  What the client throws: an error object, of which the handlers read \<open>message\<close> and
  \<open>status\<close>; a field the object does not have reads as \<open>undefined\<close>.
\<close>

record js_error =
  message :: jsval
  status :: jsval

record VerseTranslation =
  vt_resourceName :: jsval
  vt_languageName :: jsval
  vt_text :: jsval

record VerseTafsir =
  tf_resourceName :: jsval
  tf_text :: jsval

record VerseWord =
  w_textUthmani :: jsval
  w_textImlaei :: jsval

record Verse =
  v_verseKey :: jsval
  v_textUthmani :: jsval
  v_chapterId :: jsval
  v_verseNumber :: jsval
  v_pageNumber :: jsval
  v_juzNumber :: jsval
  v_translations :: "VerseTranslation list option"
  v_tafsirs :: "VerseTafsir list option"
  v_words :: "VerseWord list option"

text \<open>An entry of the translation catalogue: \<open>id\<close>, \<open>name\<close>, \<open>authorName\<close>, \<open>languageName\<close>.\<close>

record TranslationResource =
  t_id :: int
  t_name :: "string option"
  t_authorName :: "string option"
  t_languageName :: "string option"

text \<open>The options object that \<open>getVerse\<close> passes to \<open>client.verses.findByKey\<close>.\<close>

record verse_options =
  opt_translations :: "int list option"
  opt_words :: bool
  opt_tafsirs :: "int list option"
  opt_fields_textUthmani :: bool

text \<open>
  The two operations of the client that the handlers call. Each either returns a value
  (\<open>Inr\<close>) or throws (\<open>Inl\<close>); \<open>findAllTranslations\<close> is called with no argument.
\<close>

record QuranApi =
  findByKey :: "string \<Rightarrow> verse_options \<Rightarrow> js_error + Verse"
  findAllTranslations :: "js_error + TranslationResource list"

text \<open>The calls a handler makes on the client, with their arguments.\<close>

datatype client_call = FindByKey string verse_options | FindAllTranslations

text \<open>The tool result: \<open>isError\<close> is an optional field, \<open>None\<close> when the object has none.\<close>

record content_block =
  block_type :: string
  block_text :: string

record envelope =
  content :: "content_block list"
  isError :: "bool option"

text \<open>
  The flag as the tool protocol reads the optional field: a result that does not set
  \<open>isError\<close> is taken to have it false.
\<close>

definition isError_flag :: "envelope \<Rightarrow> bool" where
  "isError_flag e = (case isError e of None \<Rightarrow> False | Some b \<Rightarrow> b)"

subsection \<open>getVerse\<close>

record GetVerseParams =
  verseKey :: string
  translationIds :: "int list option"
  includeWords :: bool
  includeTafsir :: bool
  tafsirIds :: "int list option"

definition getVerse_options :: "GetVerseParams \<Rightarrow> verse_options" where
  "getVerse_options params =
     \<lparr>opt_translations = translationIds params,
      opt_words = includeWords params,
      opt_tafsirs = (if includeTafsir params \<and> tafsirIds params \<noteq> None
                     then tafsirIds params else None),
      opt_fields_textUthmani = True\<rparr>"

definition format_translation :: "VerseTranslation \<Rightarrow> string" where
  "format_translation translation =
     ''\<newline>*'' @ js_string (js_or (vt_resourceName translation) (JStr ''Translation''))
       @ ''* ('' @ js_string (js_or (vt_languageName translation) (JStr ''N/A'')) @ ''):\<newline>''
       @ js_string (vt_text translation) @ ''\<newline>''"

definition format_tafsir :: "VerseTafsir \<Rightarrow> string" where
  "format_tafsir tafsir =
     ''\<newline>*'' @ js_string (js_or (tf_resourceName tafsir) (JStr ''Tafsir'')) @ ''*:\<newline>''
       @ js_string (tf_text tafsir) @ ''\<newline>''"

definition format_word :: "nat \<times> VerseWord \<Rightarrow> string" where
  "format_word iw =
     decimal_of_nat (fst iw + 1) @ ''. ''
       @ js_string (js_or (js_or (w_textUthmani (snd iw)) (w_textImlaei (snd iw))) (JStr ''N/A''))
       @ ''\<newline>''"

definition format_verse :: "bool \<Rightarrow> Verse \<Rightarrow> string" where
  "format_verse wordsRequested verse =
     open_book @ '' **Verse '' @ js_string (v_verseKey verse) @ ''**\<newline>\<newline>''
     @ ''**Arabic (Uthmani):**\<newline>'' @ js_string (v_textUthmani verse) @ ''\<newline>\<newline>''
     @ ''**Metadata:**\<newline>''
     @ ''- Chapter: '' @ js_string (v_chapterId verse) @ ''\<newline>''
     @ ''- Verse Number: '' @ js_string (v_verseNumber verse) @ ''\<newline>''
     @ ''- Page: '' @ js_string (v_pageNumber verse) @ ''\<newline>''
     @ ''- Juz: '' @ js_string (v_juzNumber verse) @ ''\<newline>\<newline>''
     @ (case v_translations verse of
          Some (t # ts) \<Rightarrow>
            ''**Translations:**\<newline>'' @ concat (map format_translation (t # ts)) @ ''\<newline>''
        | _ \<Rightarrow> [])
     @ (case v_tafsirs verse of
          Some (t # ts) \<Rightarrow>
            ''**Tafsir (Commentary):**\<newline>'' @ concat (map format_tafsir (t # ts)) @ ''\<newline>''
        | _ \<Rightarrow> [])
     @ (if wordsRequested then
          (case v_words verse of
             Some (w # ws) \<Rightarrow>
               ''**Word-by-Word Breakdown:**\<newline>''
               @ concat (map format_word (enumerate 0 (w # ws)))
           | _ \<Rightarrow> [])
        else [])"

definition text_block :: "string \<Rightarrow> content_block" where
  "text_block response = \<lparr>block_type = ''text'', block_text = response\<rparr>"

definition verse_error_text :: "string \<Rightarrow> js_error \<Rightarrow> string" where
  "verse_error_text key error =
     (let errorMessage = js_or (message error) (JStr ''Unknown error occurred'');
          errorType = js_or (status error) (JStr ''error'')
      in cross_mark @ '' **Error fetching verse '' @ key @ ''**\<newline>\<newline>Error Type: ''
         @ js_string errorType @ ''\<newline>Message: '' @ js_string errorMessage
         @ ''\<newline>\<newline>Please check the verse key format (should be ''
         @ [CHR 0x27] @ ''chapter:verse'' @ [CHR 0x27] @ '', e.g., ''
         @ [CHR 0x27] @ ''2:255'' @ [CHR 0x27] @ '') and try again.'')"

text \<open>The handler returns its envelope together with the calls it made on the client.\<close>

definition getVerse :: "QuranApi \<Rightarrow> GetVerseParams \<Rightarrow> envelope \<times> client_call list" where
  "getVerse client params =
     (let options = getVerse_options params
      in (case findByKey client (verseKey params) options of
            Inr verse \<Rightarrow>
              \<lparr>content = [text_block (format_verse (includeWords params) verse)],
               isError = None\<rparr>
          | Inl error \<Rightarrow>
              \<lparr>content = [text_block (verse_error_text (verseKey params) error)],
               isError = Some True\<rparr>,
          [FindByKey (verseKey params) options]))"

subsection \<open>getAvailableTranslations\<close>

record GetAvailableTranslationsParams =
  language :: "string option"

text \<open>\<^verbatim>\<open>if (language)\<close>: a filter is given when the string is there and not empty.\<close>

definition language_given :: "string option \<Rightarrow> bool" where
  "language_given lang = (case lang of None \<Rightarrow> False | Some l \<Rightarrow> l \<noteq> [])"

text \<open>\<^verbatim>\<open>(t) => t.languageName?.toLowerCase() === language.toLowerCase()\<close>\<close>

definition language_matches :: "js_runtime \<Rightarrow> string \<Rightarrow> TranslationResource \<Rightarrow> bool" where
  "language_matches rt l t =
     (map_option (toLowerCase rt) (t_languageName t) = Some (toLowerCase rt l))"

definition filterTranslations ::
  "js_runtime \<Rightarrow> string option \<Rightarrow> TranslationResource list \<Rightarrow> TranslationResource list" where
  "filterTranslations rt lang allTranslations =
     (case lang of
        None \<Rightarrow> allTranslations
      | Some l \<Rightarrow> if l \<noteq> [] then filter (language_matches rt l) allTranslations
                  else allTranslations)"

text \<open>The members of a group: \<^verbatim>\<open>{ id: t.id, name: t.name, author: t.authorName }\<close>.\<close>

record group_item =
  item_id :: int
  item_name :: "string option"
  item_author :: "string option"

definition group_item_of :: "TranslationResource \<Rightarrow> group_item" where
  "group_item_of t = \<lparr>item_id = t_id t, item_name = t_name t, item_author = t_authorName t\<rparr>"

text \<open>\<^verbatim>\<open>const lang = t.languageName || "unknown"\<close>\<close>

definition language_key :: "TranslationResource \<Rightarrow> string" where
  "language_key t =
     (case t_languageName t of None \<Rightarrow> ''unknown'' | Some l \<Rightarrow> if l = [] then ''unknown'' else l)"

text \<open>
  \<open>byLanguage\<close> is a plain object \<^verbatim>\<open>{}\<close>: its own keys with their arrays form an association
  list, and a read \<^verbatim>\<open>byLanguage[lang]\<close> of a key it does not own goes on to \<open>Object.prototype\<close>,
  whose properties are all truthy and none of them an array.
\<close>

type_synonym byLanguage = "(string \<times> group_item list) list"

definition Object_prototype_keys :: "string list" where
  "Object_prototype_keys =
     [''constructor'', ''__defineGetter__'', ''__defineSetter__'', ''hasOwnProperty'',
      ''__lookupGetter__'', ''__lookupSetter__'', ''isPrototypeOf'', ''propertyIsEnumerable'',
      ''toString'', ''valueOf'', ''__proto__'', ''toLocaleString'']"

text \<open>The error of calling \<open>push\<close> on a value that has none (the wording is V8's).\<close>

definition push_TypeError :: js_error where
  "push_TypeError = \<lparr>message = JStr ''byLanguage[lang].push is not a function'', status = JUndefined\<rparr>"

fun push_item :: "string \<Rightarrow> group_item \<Rightarrow> byLanguage \<Rightarrow> byLanguage" where
  "push_item lang item [] = []"
| "push_item lang item ((k, items) # g) =
     (if k = lang then (k, items @ [item]) # g else (k, items) # push_item lang item g)"

text \<open>
  One turn of \<^verbatim>\<open>filteredTranslations.forEach((t) => { ... })\<close>:
  \<^verbatim>\<open>if (!byLanguage[lang]) { byLanguage[lang] = []; }  byLanguage[lang].push({...});\<close>
\<close>

definition byLanguage_add :: "TranslationResource \<Rightarrow> byLanguage \<Rightarrow> js_error + byLanguage" where
  "byLanguage_add t g =
     (let lang = language_key t;
          g1 = (if lang \<in> set (map fst g) \<or> lang \<in> set Object_prototype_keys then g
                else g @ [(lang, [])])
      in if lang \<in> set (map fst g1) then Inr (push_item lang (group_item_of t) g1)
         else Inl push_TypeError)"

fun group_forEach :: "TranslationResource list \<Rightarrow> byLanguage \<Rightarrow> js_error + byLanguage" where
  "group_forEach [] g = Inr g"
| "group_forEach (t # ts) g =
     (case byLanguage_add t g of Inl e \<Rightarrow> Inl e | Inr g' \<Rightarrow> group_forEach ts g')"

text \<open>The array that \<open>byLanguage\<close> holds under a key, empty when it holds none.\<close>

definition group_at :: "byLanguage \<Rightarrow> string \<Rightarrow> group_item list" where
  "group_at g k = (case map_of g k of Some items \<Rightarrow> items | None \<Rightarrow> [])"

definition render_group_item :: "group_item \<Rightarrow> string" where
  "render_group_item translation =
     ''  '' @ bullet @ '' ID: '' @ decimal_of_int (item_id translation) @ '' - ''
       @ opt_string (item_name translation)
       @ (case item_author translation of
            Some a \<Rightarrow> if a \<noteq> [] then '' by '' @ a else []
          | None \<Rightarrow> [])
       @ ''\<newline>''"

definition render_group :: "js_runtime \<Rightarrow> string \<Rightarrow> group_item list \<Rightarrow> string" where
  "render_group rt lang items =
     ''**'' @ capitalize rt lang @ ''** ('' @ decimal_of_nat (length items) @ '' translations):\<newline>''
       @ concat (map render_group_item items) @ ''\<newline>''"

text \<open>
  \<^verbatim>\<open>Object.keys(byLanguage).sort().forEach((lang) => { ... byLanguage[lang] ... })\<close>:
  the default sort compares the keys as strings, character by character, so the order in which
  \<open>Object.keys\<close> lists them does not matter.
\<close>

definition render_groups :: "js_runtime \<Rightarrow> byLanguage \<Rightarrow> string" where
  "render_groups rt g =
     concat (map (\<lambda>lang. case map_of g lang of
                            Some items \<Rightarrow> render_group rt lang items
                          | None \<Rightarrow> [])
                 (sort (map fst g)))"

definition render_list_item :: "TranslationResource \<Rightarrow> string" where
  "render_list_item translation =
     bullet @ '' **ID: '' @ decimal_of_int (t_id translation) @ ''** - ''
       @ opt_string (t_name translation)
       @ (case t_authorName translation of
            Some a \<Rightarrow> if a \<noteq> [] then '' by '' @ a else []
          | None \<Rightarrow> [])
       @ ''\<newline>''"

definition usage_example :: "int \<Rightarrow> string" where
  \<open>usage_example exampleId =
     ''\<newline>**Usage Example:**\<newline>''
     @ ''To fetch a verse with translation ID '' @ decimal_of_int exampleId @ '', use:\<newline>''
     @ ''```\<newline>getVerse({ verseKey: "2:255", translations: ['' @ decimal_of_int exampleId
     @ ''] })\<newline>```\<newline>''\<close>

definition translations_header :: "js_runtime \<Rightarrow> string option \<Rightarrow> nat \<Rightarrow> string" where
  "translations_header rt lang n =
     (case lang of
        Some l \<Rightarrow>
          if l \<noteq> [] then
            books @ '' **Available '' @ capitalize rt l @ '' Translations** ('' @ decimal_of_nat n
              @ '' found)\<newline>\<newline>''
          else books @ '' **All Available Translations** ('' @ decimal_of_nat n @ '' total)\<newline>\<newline>''
      | None \<Rightarrow> books @ '' **All Available Translations** ('' @ decimal_of_nat n @ '' total)\<newline>\<newline>'')"

definition no_translations_text :: "string option \<Rightarrow> string" where
  "no_translations_text lang =
     ''No translations found''
     @ (case lang of
          Some l \<Rightarrow> if l \<noteq> [] then '' for language: '' @ l else []
        | None \<Rightarrow> [])
     @ ''.\<newline>\<newline>Try using common languages like: english, urdu, arabic, spanish, french, turkish, bengali, indonesian, russian, persian''"

text \<open>
  The body of the \<open>try\<close> block after the client has answered: the response text, or the
  error thrown on the way.
\<close>

definition translations_response ::
  "js_runtime \<Rightarrow> string option \<Rightarrow> TranslationResource list \<Rightarrow> js_error + string" where
  "translations_response rt lang allTranslations =
     (let filteredTranslations = filterTranslations rt lang allTranslations;
          response = translations_header rt lang (length filteredTranslations)
      in case filteredTranslations of
           [] \<Rightarrow> Inr (response @ no_translations_text lang)
         | first # _ \<Rightarrow>
             if \<not> language_given lang then
               (case group_forEach filteredTranslations [] of
                  Inl e \<Rightarrow> Inl e
                | Inr g \<Rightarrow> Inr (response @ render_groups rt g @ usage_example (t_id first)))
             else
               Inr (response @ concat (map render_list_item filteredTranslations) @ ''\<newline>''
                      @ usage_example (t_id first)))"

definition translations_error_text :: "js_error \<Rightarrow> string" where
  "translations_error_text error =
     (let errorMessage = js_or (message error) (JStr ''Unknown error occurred'');
          errorType = js_or (status error) (JStr ''error'')
      in cross_mark @ '' **Error fetching translations**\<newline>\<newline>Error Type: ''
         @ js_string errorType @ ''\<newline>Message: '' @ js_string errorMessage
         @ ''\<newline>\<newline>Please try again.'')"

definition getAvailableTranslations ::
  "js_runtime \<Rightarrow> QuranApi \<Rightarrow> GetAvailableTranslationsParams \<Rightarrow> envelope \<times> client_call list" where
  "getAvailableTranslations rt client params =
     (case (case findAllTranslations client of
              Inl e \<Rightarrow> Inl e
            | Inr allTranslations \<Rightarrow> translations_response rt (language params) allTranslations) of
        Inr response \<Rightarrow> \<lparr>content = [text_block response], isError = None\<rparr>
      | Inl error \<Rightarrow> \<lparr>content = [text_block (translations_error_text error)], isError = Some True\<rparr>,
      [FindAllTranslations])"

subsection \<open>A runtime, a small catalogue, a verse and a client to run the handlers on\<close>

text \<open>
  The runtime's string methods on ASCII text, where only the letters A-Z and a-z have a case
  and a character is one element of the list. The examples use ASCII text only.
\<close>

definition upper_letters :: string where
  "upper_letters = ''ABCDEFGHIJKLMNOPQRSTUVWXYZ''"

definition lower_letters :: string where
  "lower_letters = ''abcdefghijklmnopqrstuvwxyz''"

definition ascii_lower :: "char \<Rightarrow> char" where
  "ascii_lower c =
     (case map_of (zip upper_letters lower_letters) c of Some l \<Rightarrow> l | None \<Rightarrow> c)"

definition ascii_upper :: "char \<Rightarrow> char" where
  "ascii_upper c =
     (case map_of (zip lower_letters upper_letters) c of Some u \<Rightarrow> u | None \<Rightarrow> c)"

definition ascii_runtime :: js_runtime where
  "ascii_runtime =
     \<lparr>toLowerCase = map ascii_lower,
      toUpperCase = map ascii_upper,
      charAt = (\<lambda>s i. take 1 (drop i s)),
      slice = (\<lambda>s i. drop i s)\<rparr>"

definition example_catalogue :: "TranslationResource list" where
  "example_catalogue =
     [\<lparr>t_id = 20, t_name = Some ''Saheeh International'', t_authorName = Some ''Saheeh International'',
       t_languageName = Some ''english''\<rparr>,
      \<lparr>t_id = 234, t_name = Some ''Fatah Muhammad Jalandhari'', t_authorName = None,
       t_languageName = Some ''urdu''\<rparr>,
      \<lparr>t_id = 85, t_name = Some ''M.A.S. Abdel Haleem'', t_authorName = Some ''Abdul Haleem'',
       t_languageName = Some ''English''\<rparr>,
      \<lparr>t_id = 33, t_name = Some ''Indonesian Islamic Affairs Ministry'', t_authorName = None,
       t_languageName = None\<rparr>]"

definition example_verse :: Verse where
  "example_verse =
     \<lparr>v_verseKey = JStr ''2:255'', v_textUthmani = JStr ''...'', v_chapterId = JNum 2,
      v_verseNumber = JNum 255, v_pageNumber = JNum 42, v_juzNumber = JNum 3,
      v_translations = Some [\<lparr>vt_resourceName = JStr ''Saheeh International'',
                               vt_languageName = JUndefined, vt_text = JStr ''Allah - ...''\<rparr>],
      v_tafsirs = None,
      v_words = Some [\<lparr>w_textUthmani = JUndefined, w_textImlaei = JStr ''w1''\<rparr>,
                      \<lparr>w_textUthmani = JUndefined, w_textImlaei = JUndefined\<rparr>]\<rparr>"

definition example_client :: QuranApi where
  "example_client =
     \<lparr>findByKey = (\<lambda>key options. if key = ''2:255'' then Inr example_verse
                                   else Inl \<lparr>message = JStr ''Not Found'', status = JNum 404\<rparr>),
      findAllTranslations = Inr example_catalogue\<rparr>"

section \<open>Properties of the client cache\<close>

lemma env_value_inj: "env_value a = env_value b \<Longrightarrow> a = b"
  by (cases a; cases b) simp_all

lemma key_suffix_clash:
  "xs @ '':production'' \<noteq> ys @ '':pre-production''"
proof
  assume eq: "xs @ '':production'' = ys @ '':pre-production''"
  then have "rev (xs @ '':production'') ! 10 = rev (ys @ '':pre-production'') ! 10"
    by (rule arg_cong)
  then show False by simp
qed

lemma getConfigKey_eq_iff:
  "getConfigKey c1 = getConfigKey c2 \<longleftrightarrow>
     clientId c1 = clientId c2 \<and> environment_or_default c1 = environment_or_default c2"
proof (cases "environment_or_default c1"; cases "environment_or_default c2")
  assume "environment_or_default c1 = PRODUCTION" "environment_or_default c2 = PRE_PRODUCTION"
  then show ?thesis
    using key_suffix_clash [of "clientId c1" "clientId c2"] by (simp add: getConfigKey_def)
next
  assume "environment_or_default c1 = PRE_PRODUCTION" "environment_or_default c2 = PRODUCTION"
  then show ?thesis
    using key_suffix_clash [of "clientId c2" "clientId c1"] by (auto simp add: getConfigKey_def)
qed (simp_all add: getConfigKey_def)

text \<open>
  C4. For every pair of configurations the cache fingerprint is the same exactly when the
  client ids are equal and the effective environments are equal, where the effective
  environment of a configuration is its \<open>environment\<close> field, or \<open>PRODUCTION\<close> when the field is
  absent. The fingerprint is the client id, a colon and the string of the effective
  environment; the client secret and the default language never affect it.
\<close>

theorem getConfigKey_fingerprint:
  "(getConfigKey c1 = getConfigKey c2) =
     (clientId c1 = clientId c2
      \<and> (case environment c1 of None \<Rightarrow> PRODUCTION | Some e \<Rightarrow> e)
          = (case environment c2 of None \<Rightarrow> PRODUCTION | Some e \<Rightarrow> e))
   \<and> getConfigKey c =
       clientId c @ '':''
       @ (case environment c of
            None \<Rightarrow> ''production''
          | Some PRODUCTION \<Rightarrow> ''production''
          | Some PRE_PRODUCTION \<Rightarrow> ''pre-production'')
   \<and> getConfigKey (c\<lparr>clientSecret := secret, defaultLanguage := lang\<rparr>) = getConfigKey c"
proof -
  have same: "getConfigKey (c\<lparr>clientSecret := secret, defaultLanguage := lang\<rparr>) = getConfigKey c"
    by (simp add: getConfigKey_def environment_or_default_def)
  have shape: "getConfigKey c =
       clientId c @ '':''
       @ (case environment c of
            None \<Rightarrow> ''production''
          | Some PRODUCTION \<Rightarrow> ''production''
          | Some PRE_PRODUCTION \<Rightarrow> ''pre-production'')"
    by (simp add: getConfigKey_def environment_or_default_def
          split: option.splits QuranEnvironment.splits)
  have iff: "(getConfigKey c1 = getConfigKey c2) =
     (clientId c1 = clientId c2
      \<and> (case environment c1 of None \<Rightarrow> PRODUCTION | Some e \<Rightarrow> e)
          = (case environment c2 of None \<Rightarrow> PRODUCTION | Some e \<Rightarrow> e))"
    using getConfigKey_eq_iff [of c1 c2] by (simp add: environment_or_default_def)
  from iff shape same show ?thesis
    by (intro conjI)
qed

theorem getConfigKey_fingerprint_witness:
  "getConfigKey \<lparr>clientId = ''id-1'', clientSecret = ''secret'', defaultLanguage = None,
                  environment = None\<rparr> = ''id-1:production''
   \<and> getConfigKey \<lparr>clientId = ''id-1'', clientSecret = ''other'', defaultLanguage = Some ''ur'',
                    environment = Some PRODUCTION\<rparr> = ''id-1:production''
   \<and> getConfigKey \<lparr>clientId = ''id-1'', clientSecret = ''secret'', defaultLanguage = None,
                    environment = Some PRE_PRODUCTION\<rparr> = ''id-1:pre-production''
   \<and> getConfigKey \<lparr>clientId = ''id-1'', clientSecret = ''secret'', defaultLanguage = None,
                    environment = Some PRODUCTION\<rparr>
       \<noteq> getConfigKey \<lparr>clientId = ''id-1'', clientSecret = ''secret'', defaultLanguage = None,
                         environment = Some PRE_PRODUCTION\<rparr>
   \<and> getConfigKey \<lparr>clientId = ''id-1'', clientSecret = ''secret'', defaultLanguage = None,
                    environment = None\<rparr>
       \<noteq> getConfigKey \<lparr>clientId = ''id-2'', clientSecret = ''secret'', defaultLanguage = None,
                         environment = None\<rparr>"
  using
    getConfigKey_fingerprint
      [of "\<lparr>clientId = ''id-1'', clientSecret = ''secret'', defaultLanguage = None,
             environment = Some PRODUCTION\<rparr>"
          "\<lparr>clientId = ''id-1'', clientSecret = ''secret'', defaultLanguage = None,
             environment = Some PRE_PRODUCTION\<rparr>"
          "\<lparr>clientId = ''id-1'', clientSecret = ''secret'', defaultLanguage = None,
             environment = None\<rparr>"]
    getConfigKey_fingerprint
      [of "\<lparr>clientId = ''id-1'', clientSecret = ''secret'', defaultLanguage = None,
             environment = None\<rparr>"
          "\<lparr>clientId = ''id-2'', clientSecret = ''secret'', defaultLanguage = None,
             environment = None\<rparr>"
          "\<lparr>clientId = ''id-1'', clientSecret = ''other'', defaultLanguage = Some ''ur'',
             environment = Some PRODUCTION\<rparr>"]
    getConfigKey_fingerprint
      [of _ _ "\<lparr>clientId = ''id-1'', clientSecret = ''secret'', defaultLanguage = None,
                 environment = Some PRE_PRODUCTION\<rparr>"]
  by simp

lemma createQuranClient_result:
  "createQuranClient config s =
     (length (heap s),
      s\<lparr>heap := heap s @ [client_options config],
        sdk_log := sdk_log s @ [Constructed (length (heap s))]\<rparr>)"
  by (simp add: createQuranClient_def new_QuranClient_def client_options_def Let_def)

lemma getQuranClient_hit:
  "cachedClient s = Some c \<Longrightarrow> cachedConfig s = Some (getConfigKey config) \<Longrightarrow>
   getQuranClient config s = (c, s)"
  by (simp add: getQuranClient_def Let_def)

lemma getQuranClient_miss:
  "cachedClient s = None \<or> cachedConfig s \<noteq> Some (getConfigKey config) \<Longrightarrow>
   getQuranClient config s =
     (length (heap s),
      s\<lparr>heap := heap s @ [client_options config],
        sdk_log := sdk_log s @ [Constructed (length (heap s))],
        cachedClient := Some (length (heap s)),
        cachedConfig := Some (getConfigKey config)\<rparr>)"
  by (auto simp add: getQuranClient_def createQuranClient_result Let_def split: option.splits)

lemma getQuranClient_cells:
  "cachedClient (snd (getQuranClient config s)) = Some (fst (getQuranClient config s)) \<and>
   cachedConfig (snd (getQuranClient config s)) = Some (getConfigKey config)"
  by (cases "cachedClient s = None \<or> cachedConfig s \<noteq> Some (getConfigKey config)")
     (auto simp add: getQuranClient_miss getQuranClient_hit)

lemma getQuranClient_allocated:
  "cached_allocated s \<Longrightarrow> cached_allocated (snd (getQuranClient config s))"
  by (cases "cachedClient s = None \<or> cachedConfig s \<noteq> Some (getConfigKey config)")
     (auto simp add: getQuranClient_miss getQuranClient_hit cached_allocated_def)

lemma clearClientCache_cells:
  "cachedClient (clearClientCache s) = None \<and> cachedConfig (clearClientCache s) = None"
  by (simp add: clearClientCache_def clearCachedToken_def split: option.splits)

lemma run_call_cells_agree: "cells_agree (run_call c s)"
  by (cases c) (simp_all add: cells_agree_def getQuranClient_cells clearClientCache_cells)

lemma run_calls_cells_agree: "cells_agree s \<Longrightarrow> cells_agree (run_calls cs s)"
  by (induction cs arbitrary: s) (simp_all add: run_call_cells_agree)

lemma clearClientCache_allocated: "cached_allocated (clearClientCache s)"
  by (simp add: cached_allocated_def clearClientCache_cells)

lemma run_calls_allocated: "cached_allocated s \<Longrightarrow> cached_allocated (run_calls cs s)"
proof (induction cs arbitrary: s)
  case Nil
  then show ?case by simp
next
  case (Cons c cs)
  have "cached_allocated (run_call c s)"
    using Cons.prems by (cases c) (simp_all add: getQuranClient_allocated clearClientCache_allocated)
  then show ?case
    using Cons.IH by simp
qed

text \<open>Every state the module can reach satisfies the allocation invariant.\<close>

lemma reachable_allocated: "cached_allocated (run_calls cs initial_state)"
  by (rule run_calls_allocated) (simp add: cached_allocated_def initial_state_def)

text \<open>
  C10. The two module-level cells are always jointly set or jointly empty: \<open>cachedClient\<close> is
  \<open>null\<close> exactly when \<open>cachedConfig\<close> is \<open>null\<close>, in the initial state and after any sequence
  of calls of \<open>getQuranClient\<close> and \<open>clearClientCache\<close>.
\<close>

theorem cache_cells_jointly_set:
  "(cachedClient (run_calls calls initial_state) = None) =
   (cachedConfig (run_calls calls initial_state) = None)"
proof -
  have "cells_agree initial_state"
    by (simp add: cells_agree_def initial_state_def)
  then have "cells_agree (run_calls calls initial_state)"
    by (rule run_calls_cells_agree)
  then show ?thesis
    by (simp add: cells_agree_def)
qed

text \<open>
  C1, as the code has it. Let \<open>getQuranClient c1\<close> be followed by \<open>getQuranClient c2\<close>, with no
  invalidation in between. If the two configurations have equal client ids and equal effective
  environments (an absent environment counting as \<open>PRODUCTION\<close>), the second call returns the
  identical handle and leaves the whole state as it was: no object is constructed and nothing is
  logged. If they differ in client id or in effective environment, the second call constructs
  a new object and returns its handle, which is distinct from the first.
\<close>

theorem getQuranClient_twice:
  assumes alloc: "cached_allocated s"
    and first: "getQuranClient c1 s = (h1, s1)"
    and second: "getQuranClient c2 s1 = (h2, s2)"
  shows "(clientId c1 = clientId c2 \<and> environment_or_default c1 = environment_or_default c2
            \<longrightarrow> h2 = h1 \<and> s2 = s1)
       \<and> (clientId c1 \<noteq> clientId c2 \<or> environment_or_default c1 \<noteq> environment_or_default c2
            \<longrightarrow> h2 \<noteq> h1 \<and> h2 = length (heap s1) \<and> heap s2 = heap s1 @ [client_options c2])"
proof -
  have cells: "cachedClient s1 = Some h1" "cachedConfig s1 = Some (getConfigKey c1)"
    using getQuranClient_cells [of c1 s] first by simp_all
  have "cached_allocated s1"
    using getQuranClient_allocated [OF alloc, of c1] first by simp
  with cells have h1: "h1 < length (heap s1)"
    by (simp add: cached_allocated_def)
  show ?thesis
  proof (cases "getConfigKey c1 = getConfigKey c2")
    case True
    then have "getQuranClient c2 s1 = (h1, s1)"
      using cells by (simp add: getQuranClient_hit)
    with second True show ?thesis
      by (simp add: getConfigKey_eq_iff)
  next
    case False
    then have "getQuranClient c2 s1 =
        (length (heap s1),
         s1\<lparr>heap := heap s1 @ [client_options c2],
            sdk_log := sdk_log s1 @ [Constructed (length (heap s1))],
            cachedClient := Some (length (heap s1)),
            cachedConfig := Some (getConfigKey c2)\<rparr>)"
      using cells by (simp add: getQuranClient_miss)
    with second have "h2 = length (heap s1)" "heap s2 = heap s1 @ [client_options c2]"
      by auto
    with h1 False show ?thesis
      by (simp add: getConfigKey_eq_iff)
  qed
qed

theorem getQuranClient_twice_witness:
  "cached_allocated initial_state
   \<and> fst (getQuranClient \<lparr>clientId = ''id-1'', clientSecret = ''other'', defaultLanguage = Some ''ur'',
                             environment = None\<rparr>
          (snd (getQuranClient \<lparr>clientId = ''id-1'', clientSecret = ''secret'', defaultLanguage = None,
                                 environment = Some PRODUCTION\<rparr> initial_state)))
     = fst (getQuranClient \<lparr>clientId = ''id-1'', clientSecret = ''secret'', defaultLanguage = None,
                             environment = Some PRODUCTION\<rparr> initial_state)
   \<and> fst (getQuranClient \<lparr>clientId = ''id-1'', clientSecret = ''secret'', defaultLanguage = None,
                             environment = Some PRE_PRODUCTION\<rparr>
          (snd (getQuranClient \<lparr>clientId = ''id-1'', clientSecret = ''secret'', defaultLanguage = None,
                                 environment = Some PRODUCTION\<rparr> initial_state)))
     \<noteq> fst (getQuranClient \<lparr>clientId = ''id-1'', clientSecret = ''secret'', defaultLanguage = None,
                             environment = Some PRODUCTION\<rparr> initial_state)"
proof -
  have alloc: "cached_allocated initial_state"
    by (simp add: cached_allocated_def initial_state_def)
  show ?thesis
    using alloc
      getQuranClient_twice [OF alloc prod.collapse [symmetric] prod.collapse [symmetric],
        of "\<lparr>clientId = ''id-1'', clientSecret = ''secret'', defaultLanguage = None,
              environment = Some PRODUCTION\<rparr>"
           "\<lparr>clientId = ''id-1'', clientSecret = ''other'', defaultLanguage = Some ''ur'',
              environment = None\<rparr>"]
      getQuranClient_twice [OF alloc prod.collapse [symmetric] prod.collapse [symmetric],
        of "\<lparr>clientId = ''id-1'', clientSecret = ''secret'', defaultLanguage = None,
              environment = Some PRODUCTION\<rparr>"
           "\<lparr>clientId = ''id-1'', clientSecret = ''secret'', defaultLanguage = None,
              environment = Some PRE_PRODUCTION\<rparr>"]
    by (simp add: environment_or_default_def)
qed

theorem getQuranClient_absent_environment_counterexample:
  "environment \<lparr>clientId = ''id-1'', clientSecret = ''secret'', defaultLanguage = None,
                 environment = None\<rparr>
     \<noteq> environment \<lparr>clientId = ''id-1'', clientSecret = ''secret'', defaultLanguage = None,
                      environment = Some PRODUCTION\<rparr>
   \<and> fst (getQuranClient \<lparr>clientId = ''id-1'', clientSecret = ''secret'', defaultLanguage = None,
                             environment = Some PRODUCTION\<rparr>
          (snd (getQuranClient \<lparr>clientId = ''id-1'', clientSecret = ''secret'', defaultLanguage = None,
                                 environment = None\<rparr> initial_state)))
     = fst (getQuranClient \<lparr>clientId = ''id-1'', clientSecret = ''secret'', defaultLanguage = None,
                             environment = None\<rparr> initial_state)"
  by (simp add: getQuranClient_def getConfigKey_def environment_or_default_def initial_state_def
        createQuranClient_def new_QuranClient_def Let_def)

lemma createQuranClient_endpoints:
  "endpoints_of (heap (snd (createQuranClient config s)) ! fst (createQuranClient config s))
     = ENVIRONMENT_CONFIG (environment_or_default config)"
  by (simp add: createQuranClient_result endpoints_of_def client_options_def Let_def)

lemma ENVIRONMENT_CONFIG_nonempty:
  "contentBaseUrl (ENVIRONMENT_CONFIG e) \<noteq> [] \<and> authBaseUrl (ENVIRONMENT_CONFIG e) \<noteq> []"
  by (cases e) simp_all

text \<open>
  C2. Resolving an environment to its endpoints is total and never fails. \<open>PRODUCTION\<close> and
  \<open>PRE_PRODUCTION\<close> each have a fixed pair of non-empty endpoints; the client that
  \<open>createQuranClient\<close> constructs carries the pair of the configuration's environment; an absent
  environment gives the pair of \<open>PRODUCTION\<close>; and an absent or unrecognized \<open>QURAN_ENV\<close>
  (anything that \<open>toLowerCase\<close> does not turn into \<open>pre-production\<close>) is turned into \<open>PRODUCTION\<close>
  by \<open>init\<close> and so gives the same pair.
\<close>

theorem environment_resolution_total:
  "ENVIRONMENT_CONFIG PRODUCTION =
      \<lparr>contentBaseUrl = ''https://apis.quran.foundation'',
       authBaseUrl = ''https://oauth2.quran.foundation''\<rparr>
   \<and> ENVIRONMENT_CONFIG PRE_PRODUCTION =
      \<lparr>contentBaseUrl = ''https://apis-prelive.quran.foundation'',
       authBaseUrl = ''https://prelive-oauth2.quran.foundation''\<rparr>
   \<and> contentBaseUrl (ENVIRONMENT_CONFIG e) \<noteq> [] \<and> authBaseUrl (ENVIRONMENT_CONFIG e) \<noteq> []
   \<and> endpoints_of (heap (snd (createQuranClient config s)) ! fst (createQuranClient config s))
       = ENVIRONMENT_CONFIG (environment_or_default config)
   \<and> (environment config = None \<longrightarrow>
        endpoints_of (heap (snd (createQuranClient config s)) ! fst (createQuranClient config s))
          = ENVIRONMENT_CONFIG PRODUCTION)
   \<and> (map_option (toLowerCase rt) QURAN_ENV \<noteq> Some ''pre-production'' \<longrightarrow>
        endpoints_of
          (heap (snd (createQuranClient (config\<lparr>environment := Some (quranEnv rt QURAN_ENV)\<rparr>) s))
             ! fst (createQuranClient (config\<lparr>environment := Some (quranEnv rt QURAN_ENV)\<rparr>) s))
          = ENVIRONMENT_CONFIG PRODUCTION)"
proof -
  have absent: "environment config = None \<longrightarrow> environment_or_default config = PRODUCTION"
    by (simp add: environment_or_default_def)
  have unknown: "map_option (toLowerCase rt) QURAN_ENV \<noteq> Some ''pre-production'' \<longrightarrow>
      environment_or_default (config\<lparr>environment := Some (quranEnv rt QURAN_ENV)\<rparr>) = PRODUCTION"
    by (simp add: environment_or_default_def quranEnv_def)
  show ?thesis
    using absent unknown ENVIRONMENT_CONFIG_nonempty [of e]
    by (simp add: createQuranClient_endpoints)
qed

theorem environment_resolution_total_witness:
  "environment \<lparr>clientId = ''id-1'', clientSecret = ''secret'', defaultLanguage = None,
                 environment = None\<rparr> = None
   \<and> map_option (toLowerCase ascii_runtime) (Some ''Staging'') \<noteq> Some ''pre-production''
   \<and> endpoints_of
        (heap (snd (createQuranClient
                      \<lparr>clientId = ''id-1'', clientSecret = ''secret'', defaultLanguage = None,
                        environment = None\<rparr> initial_state))
           ! fst (createQuranClient
                    \<lparr>clientId = ''id-1'', clientSecret = ''secret'', defaultLanguage = None,
                      environment = None\<rparr> initial_state))
       = ENVIRONMENT_CONFIG PRODUCTION
   \<and> endpoints_of
        (heap (snd (createQuranClient
                      \<lparr>clientId = ''id-1'', clientSecret = ''secret'', defaultLanguage = None,
                        environment = Some (quranEnv ascii_runtime (Some ''Staging''))\<rparr> initial_state))
           ! fst (createQuranClient
                    \<lparr>clientId = ''id-1'', clientSecret = ''secret'', defaultLanguage = None,
                      environment = Some (quranEnv ascii_runtime (Some ''Staging''))\<rparr> initial_state))
       = ENVIRONMENT_CONFIG PRODUCTION"
  using environment_resolution_total
    [where e = PRODUCTION
       and config = "\<lparr>clientId = ''id-1'', clientSecret = ''secret'', defaultLanguage = None,
                        environment = None\<rparr>"
       and s = initial_state and rt = ascii_runtime and QURAN_ENV = "Some ''Staging''"]
  by (simp add: ascii_runtime_def ascii_lower_def upper_letters_def lower_letters_def
        environment_or_default_def)

lemma clearClientCache_Some:
  "cachedClient s = Some c \<Longrightarrow> c < length (heap s) \<Longrightarrow>
   clearClientCache s =
     s\<lparr>heap := (heap s)[c := (heap s ! c)\<lparr>sdk_token := None\<rparr>],
       sdk_log := sdk_log s @ [ClearCachedToken c],
       cachedClient := None,
       cachedConfig := None\<rparr>"
  by (simp add: clearClientCache_def clearCachedToken_def)

text \<open>
  C3. When a client is cached, \<open>clearClientCache\<close> calls \<open>clearCachedToken\<close> on the handle it
  holds, so that this object has no token any more, and leaves both cells empty. A following
  \<open>getQuranClient\<close>, for the configuration cached before or any other, constructs a new object
  and returns its handle, never the one held before the invalidation.
\<close>

theorem clearClientCache_then_getQuranClient:
  assumes alloc: "cached_allocated s"
    and held: "cachedClient s = Some c"
    and again: "getQuranClient config (clearClientCache s) = (h, s')"
  shows "clearClientCache s =
           s\<lparr>heap := (heap s)[c := (heap s ! c)\<lparr>sdk_token := None\<rparr>],
             sdk_log := sdk_log s @ [ClearCachedToken c],
             cachedClient := None,
             cachedConfig := None\<rparr>
       \<and> sdk_token (heap (clearClientCache s) ! c) = None
       \<and> h \<noteq> c \<and> h = length (heap s)
       \<and> heap s' = heap (clearClientCache s) @ [client_options config]
       \<and> sdk_log s' = sdk_log s @ [ClearCachedToken c, Constructed h]
       \<and> cachedClient s' = Some h \<and> cachedConfig s' = Some (getConfigKey config)"
proof -
  from alloc held have c: "c < length (heap s)"
    by (simp add: cached_allocated_def)
  note cleared = clearClientCache_Some [OF held c]
  have "cachedClient (clearClientCache s) = None"
    by (simp add: clearClientCache_cells)
  then have "getQuranClient config (clearClientCache s) =
      (length (heap (clearClientCache s)),
       (clearClientCache s)\<lparr>heap := heap (clearClientCache s) @ [client_options config],
          sdk_log := sdk_log (clearClientCache s) @ [Constructed (length (heap (clearClientCache s)))],
          cachedClient := Some (length (heap (clearClientCache s))),
          cachedConfig := Some (getConfigKey config)\<rparr>)"
    by (simp add: getQuranClient_miss)
  with again have h: "h = length (heap (clearClientCache s))"
    and s': "s' = (clearClientCache s)\<lparr>heap := heap (clearClientCache s) @ [client_options config],
          sdk_log := sdk_log (clearClientCache s) @ [Constructed (length (heap (clearClientCache s)))],
          cachedClient := Some (length (heap (clearClientCache s))),
          cachedConfig := Some (getConfigKey config)\<rparr>"
    by auto
  have len: "length (heap (clearClientCache s)) = length (heap s)"
    by (simp add: cleared)
  have tok: "sdk_token (heap (clearClientCache s) ! c) = None"
    using c by (simp add: cleared)
  have log: "sdk_log (clearClientCache s) = sdk_log s @ [ClearCachedToken c]"
    by (simp add: cleared)
  show ?thesis
    using c cleared tok h s' len log by simp
qed

theorem clearClientCache_then_getQuranClient_witness:
  "cached_allocated
     \<lparr>heap = [\<lparr>sdk_clientId = ''id-1'', sdk_clientSecret = ''secret'',
               sdk_contentBaseUrl = ''https://apis.quran.foundation'',
               sdk_authBaseUrl = ''https://oauth2.quran.foundation'',
               sdk_language = ''en'', sdk_token = Some ''token-1''\<rparr>],
      cachedClient = Some 0, cachedConfig = Some ''id-1:production'',
      sdk_log = [Constructed 0]\<rparr>
   \<and> getConfigKey \<lparr>clientId = ''id-1'', clientSecret = ''secret'', defaultLanguage = None,
                     environment = None\<rparr> = ''id-1:production''
   \<and> getQuranClient
        \<lparr>clientId = ''id-1'', clientSecret = ''secret'', defaultLanguage = None, environment = None\<rparr>
        (clearClientCache
           \<lparr>heap = [\<lparr>sdk_clientId = ''id-1'', sdk_clientSecret = ''secret'',
                     sdk_contentBaseUrl = ''https://apis.quran.foundation'',
                     sdk_authBaseUrl = ''https://oauth2.quran.foundation'',
                     sdk_language = ''en'', sdk_token = Some ''token-1''\<rparr>],
            cachedClient = Some 0, cachedConfig = Some ''id-1:production'',
            sdk_log = [Constructed 0]\<rparr>)
      = (1,
         \<lparr>heap = [\<lparr>sdk_clientId = ''id-1'', sdk_clientSecret = ''secret'',
                   sdk_contentBaseUrl = ''https://apis.quran.foundation'',
                   sdk_authBaseUrl = ''https://oauth2.quran.foundation'',
                   sdk_language = ''en'', sdk_token = None\<rparr>,
                  \<lparr>sdk_clientId = ''id-1'', sdk_clientSecret = ''secret'',
                   sdk_contentBaseUrl = ''https://apis.quran.foundation'',
                   sdk_authBaseUrl = ''https://oauth2.quran.foundation'',
                   sdk_language = ''en'', sdk_token = None\<rparr>],
          cachedClient = Some 1, cachedConfig = Some ''id-1:production'',
          sdk_log = [Constructed 0, ClearCachedToken 0, Constructed 1]\<rparr>)"
proof -
  let ?s = "\<lparr>heap = [\<lparr>sdk_clientId = ''id-1'', sdk_clientSecret = ''secret'',
               sdk_contentBaseUrl = ''https://apis.quran.foundation'',
               sdk_authBaseUrl = ''https://oauth2.quran.foundation'',
               sdk_language = ''en'', sdk_token = Some ''token-1''\<rparr>],
      cachedClient = Some 0, cachedConfig = Some ''id-1:production'',
      sdk_log = [Constructed 0]\<rparr>"
  let ?c = "\<lparr>clientId = ''id-1'', clientSecret = ''secret'', defaultLanguage = None,
             environment = None\<rparr>"
  have alloc: "cached_allocated ?s"
    by (simp add: cached_allocated_def)
  have held: "cachedClient ?s = Some 0"
    by simp
  have key: "getConfigKey ?c = ''id-1:production''"
    by (simp add: getConfigKey_def environment_or_default_def)
  obtain h s' where again: "getQuranClient ?c (clearClientCache ?s) = (h, s')"
    by (cases "getQuranClient ?c (clearClientCache ?s)")
  from clearClientCache_then_getQuranClient [OF alloc held again]
  have "h = 1" and "heap s' = heap (clearClientCache ?s) @ [client_options ?c]"
    and "sdk_log s' = [Constructed 0, ClearCachedToken 0, Constructed 1]"
    and "cachedClient s' = Some 1" and "cachedConfig s' = Some ''id-1:production''"
    and "clearClientCache ?s = ?s\<lparr>heap := (heap ?s)[0 := (heap ?s ! 0)\<lparr>sdk_token := None\<rparr>],
             sdk_log := sdk_log ?s @ [ClearCachedToken 0],
             cachedClient := None,
             cachedConfig := None\<rparr>"
    by (simp_all add: key)
  then have "s' = \<lparr>heap = [\<lparr>sdk_clientId = ''id-1'', sdk_clientSecret = ''secret'',
                   sdk_contentBaseUrl = ''https://apis.quran.foundation'',
                   sdk_authBaseUrl = ''https://oauth2.quran.foundation'',
                   sdk_language = ''en'', sdk_token = None\<rparr>,
                  \<lparr>sdk_clientId = ''id-1'', sdk_clientSecret = ''secret'',
                   sdk_contentBaseUrl = ''https://apis.quran.foundation'',
                   sdk_authBaseUrl = ''https://oauth2.quran.foundation'',
                   sdk_language = ''en'', sdk_token = None\<rparr>],
          cachedClient = Some 1, cachedConfig = Some ''id-1:production'',
          sdk_log = [Constructed 0, ClearCachedToken 0, Constructed 1]\<rparr>"
    by (cases s') (simp add: client_options_def environment_or_default_def
          language_or_default_def Language_ENGLISH_def)
  with again \<open>h = 1\<close> alloc key show ?thesis
    by simp
qed

section \<open>Properties of the tool handlers\<close>

text \<open>
  C9. The list of commentary identifiers only counts when the commentary flag is set: whenever
  \<open>includeTafsir\<close> is false, \<open>getVerse\<close> makes one call of the client's verse lookup, and that
  call carries no commentary identifiers, whatever \<open>tafsirIds\<close> holds.
\<close>

theorem getVerse_without_tafsir:
  assumes "\<not> includeTafsir params"
  shows "snd (getVerse client params) =
           [FindByKey (verseKey params)
              \<lparr>opt_translations = translationIds params,
               opt_words = includeWords params,
               opt_tafsirs = None,
               opt_fields_textUthmani = True\<rparr>]"
  using assms by (simp add: getVerse_def getVerse_options_def Let_def)

theorem getVerse_without_tafsir_witness:
  "\<not> includeTafsir \<lparr>verseKey = ''2:255'', translationIds = Some [20], includeWords = False,
                       includeTafsir = False, tafsirIds = Some [171]\<rparr>
   \<and> snd (getVerse \<lparr>findByKey = (\<lambda>k opts. Inl \<lparr>message = JStr ''Not Found'', status = JNum 404\<rparr>),
                     findAllTranslations = Inr []\<rparr>
             \<lparr>verseKey = ''2:255'', translationIds = Some [20], includeWords = False,
               includeTafsir = False, tafsirIds = Some [171]\<rparr>)
     = [FindByKey ''2:255''
          \<lparr>opt_translations = Some [20], opt_words = False, opt_tafsirs = None,
            opt_fields_textUthmani = True\<rparr>]"
  using getVerse_without_tafsir
    [of "\<lparr>verseKey = ''2:255'', translationIds = Some [20], includeWords = False,
            includeTafsir = False, tafsirIds = Some [171]\<rparr>"
        "\<lparr>findByKey = (\<lambda>k opts. Inl \<lparr>message = JStr ''Not Found'', status = JNum 404\<rparr>),
           findAllTranslations = Inr []\<rparr>"]
  by simp

lemma verse_error_text_explicit:
  "verse_error_text key error =
     [CHR 0xE2, CHR 0x9D, CHR 0x8C] @ '' **Error fetching verse '' @ key
     @ ''**\<newline>\<newline>Error Type: ''
     @ (case status error of
          JUndefined \<Rightarrow> ''error''
        | JNull \<Rightarrow> ''error''
        | JBool b \<Rightarrow> if b then ''true'' else ''error''
        | JNum n \<Rightarrow> if n = 0 then ''error'' else decimal_of_int n
        | JStr t \<Rightarrow> if t = [] then ''error'' else t)
     @ ''\<newline>Message: ''
     @ (case message error of
          JUndefined \<Rightarrow> ''Unknown error occurred''
        | JNull \<Rightarrow> ''Unknown error occurred''
        | JBool b \<Rightarrow> if b then ''true'' else ''Unknown error occurred''
        | JNum n \<Rightarrow> if n = 0 then ''Unknown error occurred'' else decimal_of_int n
        | JStr t \<Rightarrow> if t = [] then ''Unknown error occurred'' else t)
     @ ''\<newline>\<newline>Please check the verse key format (should be ''
     @ [CHR 0x27] @ ''chapter:verse'' @ [CHR 0x27] @ '', e.g., ''
     @ [CHR 0x27] @ ''2:255'' @ [CHR 0x27] @ '') and try again.''"
  by (cases "status error"; cases "message error")
     (simp_all add: verse_error_text_def js_or_def cross_mark_def Let_def)

text \<open>
  C5. Whatever error the client's verse lookup throws, \<open>getVerse\<close> returns an envelope: its
  \<open>isError\<close> is true and its one text block contains the verse key that was asked for, the
  failure category and the failure message. The category is the error's \<open>status\<close> when that
  is truthy and the word \<open>error\<close> otherwise (an error without \<open>status\<close>, or with status \<open>0\<close>
  or an empty one); the message is the error's \<open>message\<close> when that is truthy and
  \<open>Unknown error occurred\<close> otherwise.
\<close>

theorem getVerse_error_envelope:
  assumes thrown: "findByKey client (verseKey params) (getVerse_options params) = Inl error"
  shows
    "(let category =
            (case status error of
               JUndefined \<Rightarrow> ''error''
             | JNull \<Rightarrow> ''error''
             | JBool b \<Rightarrow> if b then ''true'' else ''error''
             | JNum n \<Rightarrow> if n = 0 then ''error'' else decimal_of_int n
             | JStr t \<Rightarrow> if t = [] then ''error'' else t);
          failure =
            (case message error of
               JUndefined \<Rightarrow> ''Unknown error occurred''
             | JNull \<Rightarrow> ''Unknown error occurred''
             | JBool b \<Rightarrow> if b then ''true'' else ''Unknown error occurred''
             | JNum n \<Rightarrow> if n = 0 then ''Unknown error occurred'' else decimal_of_int n
             | JStr t \<Rightarrow> if t = [] then ''Unknown error occurred'' else t);
          report =
            [CHR 0xE2, CHR 0x9D, CHR 0x8C] @ '' **Error fetching verse '' @ verseKey params
            @ ''**\<newline>\<newline>Error Type: '' @ category
            @ ''\<newline>Message: '' @ failure
            @ ''\<newline>\<newline>Please check the verse key format (should be ''
            @ [CHR 0x27] @ ''chapter:verse'' @ [CHR 0x27] @ '', e.g., ''
            @ [CHR 0x27] @ ''2:255'' @ [CHR 0x27] @ '') and try again.''
      in fst (getVerse client params) =
           \<lparr>content = [\<lparr>block_type = ''text'', block_text = report\<rparr>], isError = Some True\<rparr>
         \<and> isError_flag (fst (getVerse client params))
         \<and> sublist (verseKey params) report
         \<and> sublist (''Error Type: '' @ category) report
         \<and> sublist (''Message: '' @ failure) report)"
proof -
  define category where "category =
            (case status error of
               JUndefined \<Rightarrow> ''error''
             | JNull \<Rightarrow> ''error''
             | JBool b \<Rightarrow> if b then ''true'' else ''error''
             | JNum n \<Rightarrow> if n = 0 then ''error'' else decimal_of_int n
             | JStr t \<Rightarrow> if t = [] then ''error'' else t)"
  define failure where "failure =
            (case message error of
               JUndefined \<Rightarrow> ''Unknown error occurred''
             | JNull \<Rightarrow> ''Unknown error occurred''
             | JBool b \<Rightarrow> if b then ''true'' else ''Unknown error occurred''
             | JNum n \<Rightarrow> if n = 0 then ''Unknown error occurred'' else decimal_of_int n
             | JStr t \<Rightarrow> if t = [] then ''Unknown error occurred'' else t)"
  define rest where "rest =
            ''\<newline>\<newline>Please check the verse key format (should be ''
            @ [CHR 0x27] @ ''chapter:verse'' @ [CHR 0x27] @ '', e.g., ''
            @ [CHR 0x27] @ ''2:255'' @ [CHR 0x27] @ '') and try again.''"
  define report where "report =
            [CHR 0xE2, CHR 0x9D, CHR 0x8C] @ '' **Error fetching verse '' @ verseKey params
            @ ''**\<newline>\<newline>Error Type: '' @ category
            @ ''\<newline>Message: '' @ failure @ rest"
  have rendered: "verse_error_text (verseKey params) error = report"
    unfolding report_def category_def failure_def rest_def
    by (rule verse_error_text_explicit)
  have envelope: "fst (getVerse client params) =
           \<lparr>content = [\<lparr>block_type = ''text'', block_text = report\<rparr>], isError = Some True\<rparr>"
    using thrown by (simp add: getVerse_def Let_def text_block_def rendered)
  then have flag: "isError_flag (fst (getVerse client params))"
    by (simp add: isError_flag_def)
  have "report = ([CHR 0xE2, CHR 0x9D, CHR 0x8C] @ '' **Error fetching verse '') @ verseKey params
            @ (''**\<newline>\<newline>Error Type: '' @ category @ ''\<newline>Message: '' @ failure @ rest)"
    by (simp add: report_def)
  then have key: "sublist (verseKey params) report"
    by (simp only: sublist_appendI)
  have "report = ([CHR 0xE2, CHR 0x9D, CHR 0x8C] @ '' **Error fetching verse '' @ verseKey params
            @ ''**\<newline>\<newline>'') @ (''Error Type: '' @ category) @ (''\<newline>Message: '' @ failure @ rest)"
    by (simp add: report_def)
  then have cat: "sublist (''Error Type: '' @ category) report"
    by (simp only: sublist_appendI)
  have "report = ([CHR 0xE2, CHR 0x9D, CHR 0x8C] @ '' **Error fetching verse '' @ verseKey params
            @ ''**\<newline>\<newline>Error Type: '' @ category @ ''\<newline>'') @ (''Message: '' @ failure) @ rest"
    by (simp add: report_def)
  then have msg: "sublist (''Message: '' @ failure) report"
    by (simp only: sublist_appendI)
  from envelope flag key cat msg show ?thesis
    unfolding Let_def report_def category_def failure_def rest_def
    by simp
qed





lemma group_at_absent: "k \<notin> set (map fst g) \<Longrightarrow> group_at g k = []"
proof -
  assume "k \<notin> set (map fst g)"
  then have "map_of g k = None"
    by (simp add: map_of_eq_None_iff)
  then show ?thesis
    by (simp add: group_at_def)
qed


















lemma language_given_Some: "l \<noteq> [] \<Longrightarrow> language_given (Some l)"
  by (simp add: language_given_def)

lemma usage_example_explicit:
  \<open>usage_example exampleId =
     ''\<newline>**Usage Example:**\<newline>To fetch a verse with translation ID '' @ decimal_of_int exampleId
     @ '', use:\<newline>```\<newline>getVerse({ verseKey: "2:255", translations: ['' @ decimal_of_int exampleId
     @ ''] })\<newline>```\<newline>''\<close>
  by (simp add: usage_example_def)

text \<open>
  C8. Called with a filter, \<open>getAvailableTranslations\<close> makes one call of the client, the
  unfiltered listing of all translations, and filters the answer itself: an entry matches when
  it has a language name and that name and the filter are equal after \<open>toLowerCase\<close> on both.
  When there is a match, the text is the header, one line for every matching entry with its
  id, its name and, when it has one, its author, and at the end one usage example, a
  \<open>getVerse\<close> call whose \<open>translations\<close> list holds the id of the first match.
\<close>

theorem translations_filtered_by_language:
  assumes answer: "findAllTranslations client = Inr ts"
    and filter_given: "language params = Some l" "l \<noteq> []"
  shows
   \<open>snd (getAvailableTranslations rt client params) = [FindAllTranslations]
    \<and> filterTranslations rt (language params) ts =
          filter (\<lambda>t. \<exists>name. t_languageName t = Some name
                          \<and> toLowerCase rt name = toLowerCase rt l) ts
    \<and> (\<forall>first rest.
          filterTranslations rt (language params) ts = first # rest \<longrightarrow>
          fst (getAvailableTranslations rt client params) =
            \<lparr>content =
               [\<lparr>block_type = ''text'',
                 block_text =
                   [CHR 0xF0, CHR 0x9F, CHR 0x93, CHR 0x9A] @ '' **Available ''
                   @ toUpperCase rt (charAt rt l 0) @ slice rt l 1 @ '' Translations** (''
                   @ decimal_of_nat (length (first # rest)) @ '' found)\<newline>\<newline>''
                   @ concat
                       (map (\<lambda>t. [CHR 0xE2, CHR 0x80, CHR 0xA2] @ '' **ID: '' @ decimal_of_int (t_id t)
                                  @ ''** - ''
                                  @ (case t_name t of None \<Rightarrow> ''undefined'' | Some name \<Rightarrow> name)
                                  @ (case t_authorName t of
                                       Some a \<Rightarrow> if a \<noteq> [] then '' by '' @ a else []
                                     | None \<Rightarrow> [])
                                  @ ''\<newline>'')
                            (first # rest))
                   @ ''\<newline>''
                   @ ''\<newline>**Usage Example:**\<newline>To fetch a verse with translation ID ''
                   @ decimal_of_int (t_id first)
                   @ '', use:\<newline>```\<newline>getVerse({ verseKey: "2:255", translations: [''
                   @ decimal_of_int (t_id first) @ ''] })\<newline>```\<newline>''\<rparr>],
             isError = None\<rparr>)\<close>
proof -
  have calls: "snd (getAvailableTranslations rt client params) = [FindAllTranslations]"
    by (simp add: getAvailableTranslations_def)
  have match: "language_matches rt l =
      (\<lambda>t. \<exists>name. t_languageName t = Some name \<and> toLowerCase rt name = toLowerCase rt l)"
    by (rule ext) (auto simp add: language_matches_def)
  have filtered: "filterTranslations rt (language params) ts =
      filter (\<lambda>t. \<exists>name. t_languageName t = Some name \<and> toLowerCase rt name = toLowerCase rt l) ts"
    using filter_given by (simp add: filterTranslations_def match)
  have lines: "render_list_item =
        (\<lambda>t. [CHR 0xE2, CHR 0x80, CHR 0xA2] @ '' **ID: '' @ decimal_of_int (t_id t) @ ''** - ''
                @ (case t_name t of None \<Rightarrow> ''undefined'' | Some name \<Rightarrow> name)
                @ (case t_authorName t of
                     Some a \<Rightarrow> if a \<noteq> [] then '' by '' @ a else []
                   | None \<Rightarrow> [])
                @ ''\<newline>'')"
    by (rule ext) (simp add: render_list_item_def bullet_def opt_string_def)
  have listed: \<open>fst (getAvailableTranslations rt client params) =
            \<lparr>content =
               [\<lparr>block_type = ''text'',
                 block_text =
                   [CHR 0xF0, CHR 0x9F, CHR 0x93, CHR 0x9A] @ '' **Available ''
                   @ toUpperCase rt (charAt rt l 0) @ slice rt l 1 @ '' Translations** (''
                   @ decimal_of_nat (length (first # rest)) @ '' found)\<newline>\<newline>''
                   @ concat
                       (map (\<lambda>t. [CHR 0xE2, CHR 0x80, CHR 0xA2] @ '' **ID: '' @ decimal_of_int (t_id t)
                                  @ ''** - ''
                                  @ (case t_name t of None \<Rightarrow> ''undefined'' | Some name \<Rightarrow> name)
                                  @ (case t_authorName t of
                                       Some a \<Rightarrow> if a \<noteq> [] then '' by '' @ a else []
                                     | None \<Rightarrow> [])
                                  @ ''\<newline>'')
                            (first # rest))
                   @ ''\<newline>''
                   @ ''\<newline>**Usage Example:**\<newline>To fetch a verse with translation ID ''
                   @ decimal_of_int (t_id first)
                   @ '', use:\<newline>```\<newline>getVerse({ verseKey: "2:255", translations: [''
                   @ decimal_of_int (t_id first) @ ''] })\<newline>```\<newline>''\<rparr>],
             isError = None\<rparr>\<close>
    if "filterTranslations rt (language params) ts = first # rest" for first rest
    using that answer filter_given language_given_Some [OF filter_given(2)]
    by (simp add: getAvailableTranslations_def translations_response_def Let_def
          translations_header_def text_block_def lines usage_example_explicit capitalize_def
          books_def)
  from calls filtered listed show ?thesis
    by blast
qed

lemma translations_response_no_match:
  assumes "lang = Some l" "l \<noteq> []" "filterTranslations rt lang ts = []"
  shows "translations_response rt lang ts =
           Inr (books @ '' **Available '' @ capitalize rt l @ '' Translations** (0 found)\<newline>\<newline>''
                @ ''No translations found for language: '' @ l
                @ ''.\<newline>\<newline>Try using common languages like: english, urdu, arabic, spanish, french, turkish, bengali, indonesian, russian, persian'')"
  using assms
  by (simp add: translations_response_def translations_header_def no_translations_text_def
        decimal_of_nat.simps [of 0] digit_char_def)

lemma translations_response_filtered:
  assumes "language_given lang"
  shows "\<exists>response. translations_response rt lang ts = Inr response"
  using assms
  by (cases "filterTranslations rt lang ts") (simp_all add: translations_response_def Let_def)

text \<open>
  C6. Every successful result of a handler is an envelope that is not an error: the object
  the handlers return on success has no \<open>isError\<close> field, which reads as false. This holds
  for \<open>getVerse\<close> whenever the client returns a verse, and for \<open>getAvailableTranslations\<close>
  whenever the body of its \<open>try\<close> block completes, which it always does when a filter is
  given. In particular, with a filter that matches no entry the envelope is not an error and
  its text says that no translations were found for that language and suggests example
  language names.
\<close>

theorem successful_results_are_not_errors:
  "(findByKey client (verseKey vp) (getVerse_options vp) = Inr verse \<longrightarrow>
      fst (getVerse client vp) =
        \<lparr>content = [\<lparr>block_type = ''text'', block_text = format_verse (includeWords vp) verse\<rparr>],
         isError = None\<rparr>
      \<and> \<not> isError_flag (fst (getVerse client vp)))
   \<and> (findAllTranslations client = Inr ts \<and> translations_response rt (language tp) ts = Inr response \<longrightarrow>
      fst (getAvailableTranslations rt client tp) =
        \<lparr>content = [\<lparr>block_type = ''text'', block_text = response\<rparr>], isError = None\<rparr>
      \<and> \<not> isError_flag (fst (getAvailableTranslations rt client tp)))
   \<and> (findAllTranslations client = Inr ts \<and> language_given (language tp) \<longrightarrow>
      \<not> isError_flag (fst (getAvailableTranslations rt client tp)))
   \<and> (findAllTranslations client = Inr ts \<and> language tp = Some l \<and> l \<noteq> []
        \<and> filterTranslations rt (language tp) ts = [] \<longrightarrow>
      fst (getAvailableTranslations rt client tp) =
        \<lparr>content =
           [\<lparr>block_type = ''text'',
             block_text =
               books @ '' **Available '' @ capitalize rt l @ '' Translations** (0 found)\<newline>\<newline>''
               @ ''No translations found for language: '' @ l
               @ ''.\<newline>\<newline>Try using common languages like: english, urdu, arabic, spanish, french, turkish, bengali, indonesian, russian, persian''\<rparr>],
         isError = None\<rparr>
      \<and> \<not> isError_flag (fst (getAvailableTranslations rt client tp)))"
proof -
  have verse: "findByKey client (verseKey vp) (getVerse_options vp) = Inr verse \<longrightarrow>
      fst (getVerse client vp) =
        \<lparr>content = [\<lparr>block_type = ''text'', block_text = format_verse (includeWords vp) verse\<rparr>],
         isError = None\<rparr>
      \<and> \<not> isError_flag (fst (getVerse client vp))"
    by (simp add: getVerse_def Let_def text_block_def isError_flag_def)
  have listed: "findAllTranslations client = Inr ts \<and> translations_response rt (language tp) ts = Inr r \<longrightarrow>
      fst (getAvailableTranslations rt client tp) =
        \<lparr>content = [\<lparr>block_type = ''text'', block_text = r\<rparr>], isError = None\<rparr>
      \<and> \<not> isError_flag (fst (getAvailableTranslations rt client tp))" for r
    by (simp add: getAvailableTranslations_def text_block_def isError_flag_def)
  have filtered: "findAllTranslations client = Inr ts \<and> language_given (language tp) \<longrightarrow>
      \<not> isError_flag (fst (getAvailableTranslations rt client tp))"
    using translations_response_filtered [where lang = "language tp" and rt = rt and ts = ts] listed by blast
  have none: "findAllTranslations client = Inr ts \<and> language tp = Some l \<and> l \<noteq> []
        \<and> filterTranslations rt (language tp) ts = [] \<longrightarrow>
      fst (getAvailableTranslations rt client tp) =
        \<lparr>content =
           [\<lparr>block_type = ''text'',
             block_text =
               books @ '' **Available '' @ capitalize rt l @ '' Translations** (0 found)\<newline>\<newline>''
               @ ''No translations found for language: '' @ l
               @ ''.\<newline>\<newline>Try using common languages like: english, urdu, arabic, spanish, french, turkish, bengali, indonesian, russian, persian''\<rparr>],
         isError = None\<rparr>
      \<and> \<not> isError_flag (fst (getAvailableTranslations rt client tp))"
    using translations_response_no_match [where lang = "language tp" and l = l and rt = rt and ts = ts] listed by blast
  from verse listed [of response] filtered none show ?thesis
    by blast
qed

theorem getVerse_error_envelope_witness:
  \<open>findByKey example_client ''999:1''
      (getVerse_options \<lparr>verseKey = ''999:1'', translationIds = None, includeWords = False,
                          includeTafsir = False, tafsirIds = None\<rparr>)
     = Inl \<lparr>message = JStr ''Not Found'', status = JNum 404\<rparr>
   \<and> fst (getVerse example_client
             \<lparr>verseKey = ''999:1'', translationIds = None, includeWords = False,
               includeTafsir = False, tafsirIds = None\<rparr>)
     = \<lparr>content =
          [\<lparr>block_type = ''text'',
            block_text =
              [CHR 0xE2, CHR 0x9D, CHR 0x8C]
              @ '' **Error fetching verse 999:1**\<newline>\<newline>Error Type: 404\<newline>Message: Not Found''
              @ ''\<newline>\<newline>Please check the verse key format (should be ''
              @ [CHR 0x27] @ ''chapter:verse'' @ [CHR 0x27] @ '', e.g., ''
              @ [CHR 0x27] @ ''2:255'' @ [CHR 0x27] @ '') and try again.''\<rparr>],
        isError = Some True\<rparr>
   \<and> fst (getVerse
             \<lparr>findByKey = (\<lambda>key options. Inl \<lparr>message = JStr ''fetch failed'', status = JUndefined\<rparr>),
               findAllTranslations = Inr []\<rparr>
             \<lparr>verseKey = ''2:300'', translationIds = None, includeWords = False,
               includeTafsir = False, tafsirIds = None\<rparr>)
     = \<lparr>content =
          [\<lparr>block_type = ''text'',
            block_text =
              [CHR 0xE2, CHR 0x9D, CHR 0x8C]
              @ '' **Error fetching verse 2:300**\<newline>\<newline>Error Type: error\<newline>Message: fetch failed''
              @ ''\<newline>\<newline>Please check the verse key format (should be ''
              @ [CHR 0x27] @ ''chapter:verse'' @ [CHR 0x27] @ '', e.g., ''
              @ [CHR 0x27] @ ''2:255'' @ [CHR 0x27] @ '') and try again.''\<rparr>],
        isError = Some True\<rparr>
   \<and> fst (getVerse
             \<lparr>findByKey = (\<lambda>key options. Inl \<lparr>message = JUndefined, status = JUndefined\<rparr>),
               findAllTranslations = Inr []\<rparr>
             \<lparr>verseKey = ''abc'', translationIds = None, includeWords = False,
               includeTafsir = False, tafsirIds = None\<rparr>)
     = \<lparr>content =
          [\<lparr>block_type = ''text'',
            block_text =
              [CHR 0xE2, CHR 0x9D, CHR 0x8C]
              @ '' **Error fetching verse abc**\<newline>\<newline>Error Type: error\<newline>Message: Unknown error occurred''
              @ ''\<newline>\<newline>Please check the verse key format (should be ''
              @ [CHR 0x27] @ ''chapter:verse'' @ [CHR 0x27] @ '', e.g., ''
              @ [CHR 0x27] @ ''2:255'' @ [CHR 0x27] @ '') and try again.''\<rparr>],
        isError = Some True\<rparr>\<close>
proof -
  let ?p1 = "\<lparr>verseKey = ''999:1'', translationIds = None, includeWords = False,
               includeTafsir = False, tafsirIds = None\<rparr>"
  let ?p2 = "\<lparr>verseKey = ''2:300'', translationIds = None, includeWords = False,
               includeTafsir = False, tafsirIds = None\<rparr>"
  let ?p3 = "\<lparr>verseKey = ''abc'', translationIds = None, includeWords = False,
               includeTafsir = False, tafsirIds = None\<rparr>"
  let ?c2 = "\<lparr>findByKey = (\<lambda>key options. Inl \<lparr>message = JStr ''fetch failed'', status = JUndefined\<rparr>),
               findAllTranslations = Inr []\<rparr>"
  let ?c3 = "\<lparr>findByKey = (\<lambda>key options. Inl \<lparr>message = JUndefined, status = JUndefined\<rparr>),
               findAllTranslations = Inr []\<rparr>"
  have t1: "findByKey example_client (verseKey ?p1) (getVerse_options ?p1)
              = Inl \<lparr>message = JStr ''Not Found'', status = JNum 404\<rparr>"
    by (simp add: example_client_def)
  have t2: "findByKey ?c2 (verseKey ?p2) (getVerse_options ?p2)
              = Inl \<lparr>message = JStr ''fetch failed'', status = JUndefined\<rparr>"
    by simp
  have t3: "findByKey ?c3 (verseKey ?p3) (getVerse_options ?p3)
              = Inl \<lparr>message = JUndefined, status = JUndefined\<rparr>"
    by simp
  have n: "decimal_of_int 404 = ''404''"
    by (simp add: decimal_of_int_def decimal_of_nat.simps digit_char_def)
  from getVerse_error_envelope [OF t1] getVerse_error_envelope [OF t2]
       getVerse_error_envelope [OF t3] t1 n
  show ?thesis
    by (simp add: Let_def)
qed

theorem successful_results_are_not_errors_witness:
  "findByKey example_client
     (verseKey \<lparr>verseKey = ''2:255'', translationIds = Some [20], includeWords = True,
                 includeTafsir = False, tafsirIds = None\<rparr>)
     (getVerse_options \<lparr>verseKey = ''2:255'', translationIds = Some [20], includeWords = True,
                         includeTafsir = False, tafsirIds = None\<rparr>)
     = Inr example_verse
   \<and> findAllTranslations example_client = Inr example_catalogue
   \<and> language_given (language \<lparr>language = Some ''klingon''\<rparr>)
   \<and> filterTranslations ascii_runtime (language \<lparr>language = Some ''klingon''\<rparr>) example_catalogue = []
   \<and> \<not> isError_flag (fst (getVerse example_client
                              \<lparr>verseKey = ''2:255'', translationIds = Some [20], includeWords = True,
                                includeTafsir = False, tafsirIds = None\<rparr>))
   \<and> fst (getAvailableTranslations ascii_runtime example_client \<lparr>language = Some ''klingon''\<rparr>)
     = \<lparr>content =
          [\<lparr>block_type = ''text'',
            block_text =
              books @ '' **Available Klingon Translations** (0 found)\<newline>\<newline>''
              @ ''No translations found for language: klingon''
              @ ''.\<newline>\<newline>Try using common languages like: english, urdu, arabic, spanish, french, turkish, bengali, indonesian, russian, persian''\<rparr>],
        isError = None\<rparr>"
proof -
  let ?vp = "\<lparr>verseKey = ''2:255'', translationIds = Some [20], includeWords = True,
               includeTafsir = False, tafsirIds = None\<rparr>"
  let ?tp = "\<lparr>language = Some ''klingon''\<rparr>"
  let ?r = "books @ '' **Available Klingon Translations** (0 found)\<newline>\<newline>''
              @ ''No translations found for language: klingon''
              @ ''.\<newline>\<newline>Try using common languages like: english, urdu, arabic, spanish, french, turkish, bengali, indonesian, russian, persian''"
  have found: "findByKey example_client (verseKey ?vp) (getVerse_options ?vp) = Inr example_verse"
    by (simp add: example_client_def)
  have answer: "findAllTranslations example_client = Inr example_catalogue"
    by (simp add: example_client_def)
  have given: "language_given (language ?tp)"
    by (simp add: language_given_def)
  have nomatch: "filterTranslations ascii_runtime (language ?tp) example_catalogue = []"
    by (simp add: filterTranslations_def example_catalogue_def language_matches_def
          ascii_runtime_def ascii_lower_def upper_letters_def lower_letters_def)
  have cap: "capitalize ascii_runtime ''klingon'' = ''Klingon''"
    by (simp add: capitalize_def ascii_runtime_def ascii_upper_def upper_letters_def
          lower_letters_def)
  have response: "translations_response ascii_runtime (language ?tp) example_catalogue = Inr ?r"
    using nomatch
    by (simp add: translations_response_def translations_header_def no_translations_text_def
          cap decimal_of_nat.simps [of 0] digit_char_def)
  from successful_results_are_not_errors
         [where client = example_client and vp = ?vp and verse = example_verse
            and ts = example_catalogue and rt = ascii_runtime and tp = ?tp and response = ?r
            and l = "''klingon''"]
       found answer nomatch
  have "\<not> isError_flag (fst (getVerse example_client ?vp))"
    and "fst (getAvailableTranslations ascii_runtime example_client ?tp) =
        \<lparr>content =
           [\<lparr>block_type = ''text'',
             block_text =
               books @ '' **Available '' @ capitalize ascii_runtime ''klingon'' @ '' Translations** (0 found)\<newline>\<newline>''
               @ ''No translations found for language: '' @ ''klingon''
               @ ''.\<newline>\<newline>Try using common languages like: english, urdu, arabic, spanish, french, turkish, bengali, indonesian, russian, persian''\<rparr>],
         isError = None\<rparr>"
    by (simp_all add: isError_flag_def)
  with found answer given nomatch cap show ?thesis
    by simp
qed


theorem translations_filtered_by_language_witness:
  \<open>findAllTranslations example_client = Inr example_catalogue
   \<and> language \<lparr>language = Some ''eNGLISH''\<rparr> = Some ''eNGLISH''
   \<and> ''eNGLISH'' \<noteq> []
   \<and> filterTranslations ascii_runtime (language \<lparr>language = Some ''eNGLISH''\<rparr>) example_catalogue
       = [\<lparr>t_id = 20, t_name = Some ''Saheeh International'',
            t_authorName = Some ''Saheeh International'', t_languageName = Some ''english''\<rparr>,
          \<lparr>t_id = 85, t_name = Some ''M.A.S. Abdel Haleem'', t_authorName = Some ''Abdul Haleem'',
            t_languageName = Some ''English''\<rparr>]
   \<and> getAvailableTranslations ascii_runtime example_client \<lparr>language = Some ''eNGLISH''\<rparr>
     = (\<lparr>content =
          [\<lparr>block_type = ''text'',
            block_text =
              [CHR 0xF0, CHR 0x9F, CHR 0x93, CHR 0x9A]
              @ '' **Available ENGLISH Translations** (2 found)\<newline>\<newline>''
              @ [CHR 0xE2, CHR 0x80, CHR 0xA2]
              @ '' **ID: 20** - Saheeh International by Saheeh International\<newline>''
              @ [CHR 0xE2, CHR 0x80, CHR 0xA2]
              @ '' **ID: 85** - M.A.S. Abdel Haleem by Abdul Haleem\<newline>''
              @ ''\<newline>''
              @ ''\<newline>**Usage Example:**\<newline>To fetch a verse with translation ID 20, use:\<newline>''
              @ ''```\<newline>getVerse({ verseKey: "2:255", translations: [20] })\<newline>```\<newline>''\<rparr>],
        isError = None\<rparr>, [FindAllTranslations])\<close>
proof -
  let ?tp = "\<lparr>language = Some ''eNGLISH''\<rparr>"
  let ?first = "\<lparr>t_id = 20, t_name = Some ''Saheeh International'',
            t_authorName = Some ''Saheeh International'', t_languageName = Some ''english''\<rparr>"
  let ?second = "\<lparr>t_id = 85, t_name = Some ''M.A.S. Abdel Haleem'', t_authorName = Some ''Abdul Haleem'',
            t_languageName = Some ''English''\<rparr>"
  have answer: "findAllTranslations example_client = Inr example_catalogue"
    by (simp add: example_client_def)
  have given: "language ?tp = Some ''eNGLISH''" "''eNGLISH'' \<noteq> []"
    by simp_all
  have matches: "filterTranslations ascii_runtime (language ?tp) example_catalogue = [?first, ?second]"
    by (simp add: filterTranslations_def example_catalogue_def language_matches_def
          ascii_runtime_def ascii_lower_def upper_letters_def lower_letters_def)
  have cap: "toUpperCase ascii_runtime (charAt ascii_runtime ''eNGLISH'' 0)
               @ slice ascii_runtime ''eNGLISH'' 1 = ''ENGLISH''"
    by (simp add: ascii_runtime_def ascii_upper_def upper_letters_def lower_letters_def)
  have n20: "decimal_of_int 20 = ''20''" and n85: "decimal_of_int 85 = ''85''"
    by (simp_all add: decimal_of_int_def decimal_of_nat.simps digit_char_def)
  have n2: "decimal_of_nat (Suc (Suc 0)) = ''2''"
    by (simp add: decimal_of_nat.simps [of "Suc (Suc 0)"] digit_char_def)
  have cap': "toUpperCase ascii_runtime (charAt ascii_runtime ''eNGLISH'' 0)
               @ slice ascii_runtime ''eNGLISH'' (Suc 0) @ rest = ''ENGLISH'' @ rest" for rest
    using cap by simp
  note inst = translations_filtered_by_language [where rt = ascii_runtime, OF answer given]
  from inst have calls: "snd (getAvailableTranslations ascii_runtime example_client ?tp) = [FindAllTranslations]"
    by (rule conjunct1)
  from inst matches
  have \<open>fst (getAvailableTranslations ascii_runtime example_client ?tp) =
            \<lparr>content =
               [\<lparr>block_type = ''text'',
                 block_text =
                   [CHR 0xF0, CHR 0x9F, CHR 0x93, CHR 0x9A] @ '' **Available ''
                   @ (toUpperCase ascii_runtime (charAt ascii_runtime ''eNGLISH'' 0)
                        @ slice ascii_runtime ''eNGLISH'' 1) @ '' Translations** (''
                   @ decimal_of_nat (length (?first # [?second])) @ '' found)\<newline>\<newline>''
                   @ concat
                       (map (\<lambda>t. [CHR 0xE2, CHR 0x80, CHR 0xA2] @ '' **ID: '' @ decimal_of_int (t_id t)
                                  @ ''** - ''
                                  @ (case t_name t of None \<Rightarrow> ''undefined'' | Some name \<Rightarrow> name)
                                  @ (case t_authorName t of
                                       Some a \<Rightarrow> if a \<noteq> [] then '' by '' @ a else []
                                     | None \<Rightarrow> [])
                                  @ ''\<newline>'')
                            (?first # [?second]))
                   @ ''\<newline>''
                   @ ''\<newline>**Usage Example:**\<newline>To fetch a verse with translation ID ''
                   @ decimal_of_int (t_id ?first)
                   @ '', use:\<newline>```\<newline>getVerse({ verseKey: "2:255", translations: [''
                   @ decimal_of_int (t_id ?first) @ ''] })\<newline>```\<newline>''\<rparr>],
             isError = None\<rparr>\<close>
    by simp
  then have \<open>fst (getAvailableTranslations ascii_runtime example_client ?tp) =
       \<lparr>content =
          [\<lparr>block_type = ''text'',
            block_text =
              [CHR 0xF0, CHR 0x9F, CHR 0x93, CHR 0x9A]
              @ '' **Available ENGLISH Translations** (2 found)\<newline>\<newline>''
              @ [CHR 0xE2, CHR 0x80, CHR 0xA2]
              @ '' **ID: 20** - Saheeh International by Saheeh International\<newline>''
              @ [CHR 0xE2, CHR 0x80, CHR 0xA2]
              @ '' **ID: 85** - M.A.S. Abdel Haleem by Abdul Haleem\<newline>''
              @ ''\<newline>''
              @ ''\<newline>**Usage Example:**\<newline>To fetch a verse with translation ID 20, use:\<newline>''
              @ ''```\<newline>getVerse({ verseKey: "2:255", translations: [20] })\<newline>```\<newline>''\<rparr>],
        isError = None\<rparr>\<close>
    by (simp add: cap' n20 n85 n2)
  with calls answer given matches show ?thesis
    by (simp add: prod_eq_iff)
qed

end
